theory Spec2Isabelle
  imports Complex_Main
begin

section \<open>JavaScript values\<close>

text \<open>
  The component computes with JavaScript numbers. A number is modelled as one of the
  special values \<open>NaN\<close>, \<open>Infinity\<close>, \<open>-Infinity\<close>, or a finite value carried as an
  exact real: the rounding of double-precision arithmetic and overflow to an infinity are
  not part of the model, and the two zeros are one value (the program never divides by a
  zero, which is the only place where their sign could show). The model therefore says
  which expression the program evaluates, and what the comparisons, the clamp and the
  rounding to two decimals do with its value; it does not say what the last binary digit
  of a sum, product or quotient is.
\<close>

datatype jsnum = NaN | PosInf | NegInf | Fin real

text \<open>
  The values a student object holds: numbers (the initial scores, the score \<open>0\<close> of an
  added row), strings (whatever an input element delivers) and \<open>undefined\<close> (what reading
  an absent property gives).
\<close>

datatype jsval = JUndefined | JNum jsnum | JStr string

text \<open>
  An object is a finite map from property names to values; \<open>{...s, [field]: v}\<close> is the
  map update \<open>s(field \<mapsto> v)\<close>.
\<close>

type_synonym jsobj = "string \<rightharpoonup> jsval"

definition get_prop :: "jsobj \<Rightarrow> string \<Rightarrow> jsval" where
  "get_prop obj k = (case obj k of None \<Rightarrow> JUndefined | Some v \<Rightarrow> v)"

text \<open>
  The language's conversions between strings and numbers are not code of the component.
  They are parameters of the model: \<open>Number_of_string\<close> is the coercion \<open>Number(s)\<close>
  that \<open>isNaN\<close> applies to a string, \<open>parseFloat_of_string\<close> is \<open>parseFloat(s)\<close>, and
  \<open>String_of_number\<close> is the conversion a template literal applies to a number.
\<close>

record runtime =
  Number_of_string :: "string \<Rightarrow> jsnum"
  parseFloat_of_string :: "string \<Rightarrow> jsnum"
  String_of_number :: "jsnum \<Rightarrow> string"

fun ToNumber :: "runtime \<Rightarrow> jsval \<Rightarrow> jsnum" where
  "ToNumber rt JUndefined = NaN"
| "ToNumber rt (JNum x) = x"
| "ToNumber rt (JStr s) = Number_of_string rt s"

definition isNaN :: "runtime \<Rightarrow> jsval \<Rightarrow> bool" where
  "isNaN rt v = (ToNumber rt v = NaN)"

text \<open>
  \<open>parseFloat(v)\<close> parses the string form of \<open>v\<close>. The string form of a number parses
  back to that number, and \<open>"undefined"\<close> does not start with a numeral.
\<close>

fun parseFloat :: "runtime \<Rightarrow> jsval \<Rightarrow> jsnum" where
  "parseFloat rt JUndefined = NaN"
| "parseFloat rt (JNum x) = x"
| "parseFloat rt (JStr s) = parseFloat_of_string rt s"

text \<open>Strict equality \<open>===\<close> on these values: \<open>NaN\<close> equals nothing, itself included.\<close>

fun strict_eq :: "jsval \<Rightarrow> jsval \<Rightarrow> bool" where
  "strict_eq (JNum a) (JNum b) = (a \<noteq> NaN \<and> a = b)"
| "strict_eq a b = (a = b)"

section \<open>Arithmetic on numbers\<close>

fun jneg :: "jsnum \<Rightarrow> jsnum" where
  "jneg NaN = NaN"
| "jneg PosInf = NegInf"
| "jneg NegInf = PosInf"
| "jneg (Fin a) = Fin (- a)"

fun jadd :: "jsnum \<Rightarrow> jsnum \<Rightarrow> jsnum" where
  "jadd (Fin a) (Fin b) = Fin (a + b)"
| "jadd NaN y = NaN"
| "jadd x NaN = NaN"
| "jadd PosInf NegInf = NaN"
| "jadd NegInf PosInf = NaN"
| "jadd PosInf y = PosInf"
| "jadd x PosInf = PosInf"
| "jadd NegInf y = NegInf"
| "jadd x NegInf = NegInf"

definition jsub :: "jsnum \<Rightarrow> jsnum \<Rightarrow> jsnum" where
  "jsub x y = jadd x (jneg y)"

text \<open>The infinity whose sign is that of the real \<open>a\<close>, and \<open>NaN\<close> for \<open>a = 0\<close>.\<close>

definition signed_inf :: "real \<Rightarrow> jsnum" where
  "signed_inf a = (if a = 0 then NaN else if 0 < a then PosInf else NegInf)"

fun jmul :: "jsnum \<Rightarrow> jsnum \<Rightarrow> jsnum" where
  "jmul (Fin a) (Fin b) = Fin (a * b)"
| "jmul NaN y = NaN"
| "jmul x NaN = NaN"
| "jmul (Fin a) PosInf = signed_inf a"
| "jmul (Fin a) NegInf = signed_inf (- a)"
| "jmul PosInf (Fin b) = signed_inf b"
| "jmul NegInf (Fin b) = signed_inf (- b)"
| "jmul PosInf PosInf = PosInf"
| "jmul PosInf NegInf = NegInf"
| "jmul NegInf PosInf = NegInf"
| "jmul NegInf NegInf = PosInf"

text \<open>
  Division. A finite number divided by zero is an infinity (or \<open>NaN\<close> for \<open>0 / 0\<close>), with
  the zero read as positive; an infinity divided by a finite number keeps or flips its sign.
\<close>

fun jdiv :: "jsnum \<Rightarrow> jsnum \<Rightarrow> jsnum" where
  "jdiv (Fin a) (Fin b) = (if b = 0 then signed_inf a else Fin (a / b))"
| "jdiv NaN y = NaN"
| "jdiv x NaN = NaN"
| "jdiv (Fin a) PosInf = Fin 0"
| "jdiv (Fin a) NegInf = Fin 0"
| "jdiv PosInf (Fin b) = (if b < 0 then NegInf else PosInf)"
| "jdiv NegInf (Fin b) = (if b < 0 then PosInf else NegInf)"
| "jdiv PosInf y = NaN"
| "jdiv NegInf y = NaN"

text \<open>The order of the numbers other than \<open>NaN\<close>.\<close>

fun jle :: "jsnum \<Rightarrow> jsnum \<Rightarrow> bool" where
  "jle NaN y = False"
| "jle x NaN = False"
| "jle NegInf y = True"
| "jle x PosInf = True"
| "jle (Fin a) (Fin b) = (a \<le> b)"
| "jle x y = False"

definition Math_max :: "jsnum \<Rightarrow> jsnum \<Rightarrow> jsnum" where
  "Math_max x y = (if x = NaN \<or> y = NaN then NaN else if jle x y then y else x)"

definition Math_min :: "jsnum \<Rightarrow> jsnum \<Rightarrow> jsnum" where
  "Math_min x y = (if x = NaN \<or> y = NaN then NaN else if jle x y then x else y)"

text \<open>\<open>Math.max(...xs)\<close>: \<open>-Infinity\<close> for no argument, \<open>NaN\<close> as soon as one argument is.\<close>

definition Math_max_list :: "jsnum list \<Rightarrow> jsnum" where
  "Math_max_list xs = foldl Math_max NegInf xs"

text \<open>\<open>Math.pow(x, 2)\<close>.\<close>

fun Math_pow2 :: "jsnum \<Rightarrow> jsnum" where
  "Math_pow2 NaN = NaN"
| "Math_pow2 PosInf = PosInf"
| "Math_pow2 NegInf = PosInf"
| "Math_pow2 (Fin a) = Fin (a ^ 2)"

fun Math_sqrt :: "jsnum \<Rightarrow> jsnum" where
  "Math_sqrt NaN = NaN"
| "Math_sqrt PosInf = PosInf"
| "Math_sqrt NegInf = NaN"
| "Math_sqrt (Fin a) = (if a < 0 then NaN else Fin (sqrt a))"

text \<open>
  \<open>x.toFixed(2)\<close> for a finite \<open>x\<close>, as the number its digits denote. A magnitude of at
  least \<open>10^21\<close> is printed as \<open>String(x)\<close>, which denotes \<open>x\<close>. Otherwise the digits are the
  sign and the integer \<open>n\<close> for which \<open>n / 100\<close> is closest to the magnitude, the larger
  \<open>n\<close> when two are equally close, with the point before the last two.
\<close>

definition toFixed2 :: "real \<Rightarrow> real" where
  "toFixed2 x =
     (if 10 ^ 21 \<le> \<bar>x\<bar> then x
      else sgn x * (real_of_int \<lfloor>\<bar>x\<bar> * 100 + 1 / 2\<rfloor> / 100))"

text \<open>
  \<open>parseFloat(x.toFixed(2))\<close>. A number that is not finite is printed by \<open>toFixed\<close> as
  \<open>String(x)\<close>, and parses back to itself.
\<close>

fun parseFloat_toFixed2 :: "jsnum \<Rightarrow> jsnum" where
  "parseFloat_toFixed2 (Fin x) = Fin (toFixed2 x)"
| "parseFloat_toFixed2 x = x"

section \<open>The component\<close>

subsection \<open>Statistics\<close>

record statistics =
  rawMean :: jsnum
  rawSD :: jsnum
  targetMeanPoints :: jsnum

text \<open>The filter of \<open>stats\<close>: \<open>s.raw !== '' && !isNaN(s.raw)\<close>.\<close>

definition validScore :: "runtime \<Rightarrow> jsobj \<Rightarrow> bool" where
  "validScore rt s =
     (\<not> strict_eq (get_prop s ''raw'') (JStr '''') \<and> \<not> isNaN rt (get_prop s ''raw''))"

definition validScores :: "runtime \<Rightarrow> jsobj list \<Rightarrow> jsnum list" where
  "validScores rt students =
     map (\<lambda>s. parseFloat rt (get_prop s ''raw'')) (filter (validScore rt) students)"

text \<open>\<open>xs.reduce((a, b) => a + b, 0)\<close>.\<close>

definition reduce_add :: "jsnum list \<Rightarrow> jsnum" where
  "reduce_add xs = foldl (\<lambda>a b. jadd a b) (Fin 0) xs"

definition stats :: "runtime \<Rightarrow> jsobj list \<Rightarrow> jsnum \<Rightarrow> jsnum \<Rightarrow> statistics" where
  "stats rt students maxMarks targetMeanPercent =
     (let scores = validScores rt students;
          count = length scores
      in if count = 0
         then \<lparr>rawMean = Fin 0, rawSD = Fin 0, targetMeanPoints = Fin 0\<rparr>
         else
           let sum = reduce_add scores;
               mean = jdiv sum (Fin (real count));
               squareDiffs = map (\<lambda>val. Math_pow2 (jsub val mean)) scores;
               variance = jdiv (reduce_add squareDiffs) (Fin (real count));
               sd = Math_sqrt variance;
               target = jmul (jdiv targetMeanPercent (Fin 100)) maxMarks
           in \<lparr>rawMean = mean, rawSD = sd, targetMeanPoints = target\<rparr>)"

subsection \<open>Normalization\<close>

text \<open>
  The formula applied to a score that parsed to a number, before the cap:
  the ratio method when \<open>method === 'ratio'\<close>, the linear shift for any other method.
\<close>

definition formula :: "statistics \<Rightarrow> string \<Rightarrow> jsnum \<Rightarrow> jsnum \<Rightarrow> jsnum" where
  "formula st method sdScaling raw =
     (if method = ''ratio''
      then (if rawMean st = Fin 0 then raw
            else jmul raw (jdiv (targetMeanPoints st) (rawMean st)))
      else jadd (targetMeanPoints st) (jmul sdScaling (jsub raw (rawMean st))))"

text \<open>The cap \<open>Math.min(maxMarks, Math.max(0, adjusted))\<close>.\<close>

definition cap :: "jsnum \<Rightarrow> jsnum \<Rightarrow> jsnum" where
  "cap maxMarks adjusted = Math_min maxMarks (Math_max (Fin 0) adjusted)"

text \<open>The value stored under \<open>adjusted\<close> for one student.\<close>

definition adjusted_of ::
  "runtime \<Rightarrow> statistics \<Rightarrow> string \<Rightarrow> jsnum \<Rightarrow> jsnum \<Rightarrow> jsobj \<Rightarrow> jsnum" where
  "adjusted_of rt st method sdScaling maxMarks student =
     (let raw = parseFloat rt (get_prop student ''raw'')
      in if raw = NaN then Fin 0
         else parseFloat_toFixed2 (cap maxMarks (formula st method sdScaling raw)))"

definition normalizedData ::
  "runtime \<Rightarrow> jsobj list \<Rightarrow> statistics \<Rightarrow> string \<Rightarrow> jsnum \<Rightarrow> jsnum \<Rightarrow> jsobj list" where
  "normalizedData rt students st method sdScaling maxMarks =
     map (\<lambda>student.
            student(''adjusted'' \<mapsto> JNum (adjusted_of rt st method sdScaling maxMarks student)))
         students"

subsection \<open>Handlers\<close>

definition addStudent :: "runtime \<Rightarrow> jsobj list \<Rightarrow> jsobj list" where
  "addStudent rt students =
     (let newId = (if length students > 0
                   then jadd (Math_max_list (map (\<lambda>s. ToNumber rt (get_prop s ''id'')) students))
                             (Fin 1)
                   else Fin 1)
      in students @
         [[''id'' \<mapsto> JNum newId,
           ''name'' \<mapsto> JStr (''Student '' @ String_of_number rt newId),
           ''raw'' \<mapsto> JNum (Fin 0)]])"

definition removeStudent :: "jsobj list \<Rightarrow> jsval \<Rightarrow> jsobj list" where
  "removeStudent students i = filter (\<lambda>s. \<not> strict_eq (get_prop s ''id'') i) students"

definition updateStudent :: "jsobj list \<Rightarrow> jsval \<Rightarrow> string \<Rightarrow> jsval \<Rightarrow> jsobj list" where
  "updateStudent students i field v =
     map (\<lambda>s. if strict_eq (get_prop s ''id'') i then s(field \<mapsto> v) else s) students"

subsection \<open>Initial state\<close>

text \<open>The student list and the configuration the component starts with.\<close>

definition mk_student :: "real \<Rightarrow> string \<Rightarrow> real \<Rightarrow> jsobj" where
  "mk_student i n r = [''id'' \<mapsto> JNum (Fin i), ''name'' \<mapsto> JStr n, ''raw'' \<mapsto> JNum (Fin r)]"

definition initial_students :: "jsobj list" where
  "initial_students =
     [mk_student 1 ''Student A'' 65,
      mk_student 2 ''Student B'' 55,
      mk_student 3 ''Student C'' 82,
      mk_student 4 ''Student D'' 40,
      mk_student 5 ''Student E'' 70]"

section \<open>Notions of the specification\<close>

fun is_finite :: "jsnum \<Rightarrow> bool" where
  "is_finite (Fin a) = True"
| "is_finite x = False"

fun fin_value :: "jsnum \<Rightarrow> real" where
  "fin_value (Fin a) = a"
| "fin_value x = 0"

text \<open>
  A raw score that is non-empty, numeric for the filter of \<open>stats\<close>, and parses to a
  finite number; and the number it parses to.
\<close>

definition finiteScore :: "runtime \<Rightarrow> jsobj \<Rightarrow> bool" where
  "finiteScore rt s = (validScore rt s \<and> is_finite (parseFloat rt (get_prop s ''raw'')))"

definition score :: "runtime \<Rightarrow> jsobj \<Rightarrow> real" where
  "score rt s = fin_value (parseFloat rt (get_prop s ''raw''))"

text \<open>The reference statistics: the mean, and the standard deviation that divides by the count.\<close>

definition arithmetic_mean :: "real list \<Rightarrow> real" where
  "arithmetic_mean xs = sum_list xs / real (length xs)"

definition population_sd :: "real list \<Rightarrow> real" where
  "population_sd xs =
     sqrt (sum_list (map (\<lambda>x. (x - arithmetic_mean xs) ^ 2) xs) / real (length xs))"

text \<open>
  A student whose adjusted score is a number: the raw score does not parse, so that the
  fallback \<open>0\<close> is stored, or the value the formula gives before the clamp is not \<open>NaN\<close>.
\<close>

definition has_number :: "runtime \<Rightarrow> statistics \<Rightarrow> string \<Rightarrow> jsnum \<Rightarrow> jsobj \<Rightarrow> bool" where
  "has_number rt st method sdScaling s =
     (parseFloat rt (get_prop s ''raw'') = NaN \<or>
      formula st method sdScaling (parseFloat rt (get_prop s ''raw'')) \<noteq> NaN)"

text \<open>A value that is a finite number in the closed interval from \<open>lo\<close> to \<open>hi\<close>.\<close>

fun in_range :: "real \<Rightarrow> real \<Rightarrow> jsval \<Rightarrow> bool" where
  "in_range lo hi (JNum (Fin a)) = (lo \<le> a \<and> a \<le> hi)"
| "in_range lo hi v = False"

text \<open>
  The identifiers of a list of students; a student whose identifier is a finite number, and
  that number.
\<close>

definition ids :: "jsobj list \<Rightarrow> jsval list" where
  "ids students = map (\<lambda>s. get_prop s ''id'') students"

definition has_numeric_id :: "jsobj \<Rightarrow> bool" where
  "has_numeric_id s = (case get_prop s ''id'' of JNum (Fin r) \<Rightarrow> True | _ \<Rightarrow> False)"

definition id_value :: "jsobj \<Rightarrow> real" where
  "id_value s = (case get_prop s ''id'' of JNum (Fin r) \<Rightarrow> r | _ \<Rightarrow> 0)"

section \<open>Sample inputs\<close>

text \<open>Two rows whose score is not counted: an emptied input, and a score that is \<open>NaN\<close>.\<close>

definition blank_students :: "jsobj list" where
  "blank_students =
     [[''id'' \<mapsto> JNum (Fin 1), ''name'' \<mapsto> JStr ''Student A'', ''raw'' \<mapsto> JStr ''''],
      [''id'' \<mapsto> JNum (Fin 2), ''name'' \<mapsto> JStr ''Student B'', ''raw'' \<mapsto> JNum NaN]]"

text \<open>A row whose score does not parse, and a row whose score is infinite.\<close>

definition unparsed_student :: jsobj where
  "unparsed_student =
     [''id'' \<mapsto> JNum (Fin 6), ''name'' \<mapsto> JStr ''Student 6'', ''raw'' \<mapsto> JNum NaN]"

definition infinite_student :: jsobj where
  "infinite_student =
     [''id'' \<mapsto> JNum (Fin 1), ''name'' \<mapsto> JStr ''Student A'', ''raw'' \<mapsto> JNum PosInf]"

text \<open>Two rows with opposite scores, whose mean is zero.\<close>

definition opposite_students :: "real \<Rightarrow> jsobj list" where
  "opposite_students r = [mk_student 1 ''Student A'' r, mk_student 2 ''Student B'' (- r)]"

text \<open>The column of adjusted scores of a normalized table.\<close>

definition adjusted_values :: "jsobj list \<Rightarrow> jsval list" where
  "adjusted_values rows = map (\<lambda>obj. get_prop obj ''adjusted'') rows"


section \<open>Statistics: proofs\<close>

text \<open>The definitions a concrete run of the component unfolds.\<close>

lemmas component_defs = initial_students_def mk_student_def
  stats_def validScores_def validScore_def isNaN_def get_prop_def reduce_add_def Let_def jsub_def
  normalizedData_def adjusted_of_def formula_def cap_def Math_min_def Math_max_def toFixed2_def
  signed_inf_def

lemma is_finite_iff: "is_finite x \<longleftrightarrow> (\<exists>a. x = Fin a)"
  by (cases x) auto

lemma foldl_jadd_Fin: "foldl (\<lambda>a b. jadd a b) (Fin a) (map Fin xs) = Fin (a + sum_list xs)"
  by (induction xs arbitrary: a) (auto simp: add.assoc)

lemma reduce_add_Fin: "reduce_add (map Fin xs) = Fin (sum_list xs)"
  by (simp add: reduce_add_def foldl_jadd_Fin)

lemma validScores_finite:
  assumes "list_all (finiteScore rt) students"
  shows "validScores rt students = map Fin (map (score rt) students)"
proof -
  from assms have f: "filter (validScore rt) students = students"
    by (auto simp: list_all_iff finiteScore_def intro: filter_True)
  from assms have "map (\<lambda>s. parseFloat rt (get_prop s ''raw'')) students = map (\<lambda>s. Fin (score rt s)) students"
    by (auto simp: list_all_iff finiteScore_def score_def is_finite_iff)
  with f show ?thesis by (simp add: validScores_def comp_def)
qed

lemma stats_nonempty:
  assumes "validScores rt students = map Fin xs" and "xs \<noteq> []"
  shows "stats rt students maxMarks targetMeanPercent =
     \<lparr>rawMean = Fin (arithmetic_mean xs), rawSD = Fin (population_sd xs),
      targetMeanPoints = jmul (jdiv targetMeanPercent (Fin 100)) maxMarks\<rparr>"
proof -
  let ?n = "real (length xs)"
  let ?m = "arithmetic_mean xs"
  let ?sq = "map (\<lambda>x. (x - ?m) ^ 2) xs"
  have n: "?n \<noteq> 0" using assms(2) by simp
  have len: "length (map Fin xs) \<noteq> 0" using assms(2) by simp
  have m: "jdiv (reduce_add (map Fin xs)) (Fin ?n) = Fin ?m"
    using n by (simp add: reduce_add_Fin arithmetic_mean_def)
  have sq: "map (\<lambda>val. Math_pow2 (jsub val (Fin ?m))) (map Fin xs) = map Fin ?sq"
    by (simp add: jsub_def comp_def)
  have nonneg: "0 \<le> sum_list ?sq / ?n"
    by (intro divide_nonneg_nonneg sum_list_nonneg) auto
  have sd: "Math_sqrt (jdiv (reduce_add (map Fin ?sq)) (Fin ?n)) = Fin (population_sd xs)"
    unfolding reduce_add_Fin using n nonneg by (simp add: population_sd_def)
  have "stats rt students maxMarks targetMeanPercent =
      \<lparr>rawMean = jdiv (reduce_add (map Fin xs)) (Fin ?n),
       rawSD = Math_sqrt (jdiv (reduce_add
                 (map (\<lambda>val. Math_pow2 (jsub val (jdiv (reduce_add (map Fin xs)) (Fin ?n))))
                      (map Fin xs))) (Fin ?n)),
       targetMeanPoints = jmul (jdiv targetMeanPercent (Fin 100)) maxMarks\<rparr>"
    unfolding stats_def Let_def assms(1) using len by simp
  then show ?thesis
    unfolding m sq sd .
qed

text \<open>
  C1. For a non-empty list of students whose raw scores all pass the filter of \<open>stats\<close> (non-empty
  and numeric) and parse to finite numbers, \<open>rawMean\<close> is the arithmetic mean of those
  scores, and \<open>rawSD\<close> is their population standard deviation: the square root of the mean
  of the squared deviations, dividing by the count and not by the count minus one.
\<close>

theorem C1_mean_and_population_sd:
  assumes "students \<noteq> []" and "list_all (finiteScore rt) students"
  shows "rawMean (stats rt students maxMarks targetMeanPercent)
           = Fin (arithmetic_mean (map (score rt) students)) \<and>
         rawSD (stats rt students maxMarks targetMeanPercent)
           = Fin (population_sd (map (score rt) students))"
  using stats_nonempty [OF validScores_finite [OF assms(2)], of maxMarks targetMeanPercent] assms(1)
  by simp

lemma initial_finite: "list_all (finiteScore rt) initial_students"
  by (simp add: initial_students_def mk_student_def finiteScore_def validScore_def isNaN_def get_prop_def)

lemma initial_scores: "map (score rt) initial_students = [65, 55, 82, 40, 70]"
  by (simp add: initial_students_def mk_student_def score_def get_prop_def)

theorem C1_witness:
  "\<forall>rt. initial_students \<noteq> [] \<and> list_all (finiteScore rt) initial_students \<and>
     rawMean (stats rt initial_students (Fin 100) (Fin 75)) = Fin (312 / 5) \<and>
     rawSD (stats rt initial_students (Fin 100) (Fin 75)) = Fin (sqrt (5026 / 25))"
proof
  fix rt
  have ne: "initial_students \<noteq> []" by (simp add: initial_students_def)
  have "arithmetic_mean [65, 55, 82, 40, 70] = 312 / 5"
    by (simp add: arithmetic_mean_def)
  moreover have "population_sd [65, 55, 82, 40, 70] = sqrt (5026 / 25)"
    by (simp add: population_sd_def arithmetic_mean_def power2_eq_square)
  ultimately show "initial_students \<noteq> [] \<and> list_all (finiteScore rt) initial_students \<and>
     rawMean (stats rt initial_students (Fin 100) (Fin 75)) = Fin (312 / 5) \<and>
     rawSD (stats rt initial_students (Fin 100) (Fin 75)) = Fin (sqrt (5026 / 25))"
    using C1_mean_and_population_sd [OF ne initial_finite, of rt "Fin 100" "Fin 75"] ne initial_finite [of rt]
    by (simp add: initial_scores)
qed

text \<open>
  C7. Where the statistics compute the target, that is whenever at least one score is
  counted, \<open>targetMeanPoints\<close> is \<open>(targetMeanPercent / 100) * maxMarks\<close> for every real
  \<open>targetMeanPercent\<close> and \<open>maxMarks\<close>: nothing is clamped, so a percentage above 100 or
  below 0 gives a target outside the range of marks. (With no counted score the result is
  the zero record of the early return, which is C8.)
\<close>

theorem C7_target_mean_points:
  assumes "validScores rt students \<noteq> []"
  shows "targetMeanPoints (stats rt students (Fin m) (Fin p)) = Fin (p / 100 * m)"
  using assms by (simp add: stats_def Let_def)

theorem C7_witness:
  "\<forall>rt. validScores rt initial_students \<noteq> [] \<and>
     targetMeanPoints (stats rt initial_students (Fin 100) (Fin 150)) = Fin 150 \<and>
     targetMeanPoints (stats rt initial_students (Fin 100) (Fin (- 20))) = Fin (- 20)"
proof
  fix rt
  have v: "validScores rt initial_students \<noteq> []"
    by (simp add: validScores_finite [OF initial_finite] initial_scores)
  show "validScores rt initial_students \<noteq> [] \<and>
     targetMeanPoints (stats rt initial_students (Fin 100) (Fin 150)) = Fin 150 \<and>
     targetMeanPoints (stats rt initial_students (Fin 100) (Fin (- 20))) = Fin (- 20)"
    using v C7_target_mean_points [OF v, of 100 150] C7_target_mean_points [OF v, of 100 "- 20"]
    by simp
qed

text \<open>
  C8. When no score is counted (the list is empty, or no raw score is non-empty and
  numeric), \<open>stats\<close> returns \<open>rawMean = 0\<close>, \<open>rawSD = 0\<close> and \<open>targetMeanPoints = 0\<close>,
  whatever \<open>maxMarks\<close> and \<open>targetMeanPercent\<close> are.
\<close>

theorem C8_no_valid_scores:
  assumes "list_all (\<lambda>s. \<not> validScore rt s) students"
  shows "stats rt students maxMarks targetMeanPercent
           = \<lparr>rawMean = Fin 0, rawSD = Fin 0, targetMeanPoints = Fin 0\<rparr>"
proof -
  from assms have "filter (validScore rt) students = []"
    by (auto simp: list_all_iff filter_empty_conv)
  then show ?thesis by (simp add: stats_def validScores_def)
qed

theorem C8_witness:
  "\<forall>rt. list_all (\<lambda>s. \<not> validScore rt s) blank_students \<and>
     stats rt blank_students (Fin 100) (Fin 75)
       = \<lparr>rawMean = Fin 0, rawSD = Fin 0, targetMeanPoints = Fin 0\<rparr> \<and>
     stats rt [] (Fin 40) (Fin 120)
       = \<lparr>rawMean = Fin 0, rawSD = Fin 0, targetMeanPoints = Fin 0\<rparr>"
proof
  fix rt
  have b: "list_all (\<lambda>s. \<not> validScore rt s) blank_students"
    by (simp add: blank_students_def validScore_def isNaN_def get_prop_def)
  have e: "list_all (\<lambda>s. \<not> validScore rt s) []" by simp
  show "list_all (\<lambda>s. \<not> validScore rt s) blank_students \<and>
     stats rt blank_students (Fin 100) (Fin 75)
       = \<lparr>rawMean = Fin 0, rawSD = Fin 0, targetMeanPoints = Fin 0\<rparr> \<and>
     stats rt [] (Fin 40) (Fin 120)
       = \<lparr>rawMean = Fin 0, rawSD = Fin 0, targetMeanPoints = Fin 0\<rparr>"
    using b C8_no_valid_scores [OF b, of "Fin 100" "Fin 75"] C8_no_valid_scores [OF e, of "Fin 40" "Fin 120"]
    by simp
qed

section \<open>Rounding to two decimals: proofs\<close>

lemma toFixed2_small:
  assumes "0 \<le> x" and "x < 10 ^ 21"
  shows "toFixed2 x = real_of_int \<lfloor>x * 100 + 1 / 2\<rfloor> / 100"
proof (cases "x = 0")
  case True
  then show ?thesis by (simp add: toFixed2_def)
next
  case False
  with assms have "0 < x" by simp
  with assms show ?thesis by (simp add: toFixed2_def)
qed

lemma toFixed2_big: "10 ^ 21 \<le> x \<Longrightarrow> toFixed2 x = x"
  by (simp add: toFixed2_def)

lemma toFixed2_nonneg: "0 \<le> x \<Longrightarrow> 0 \<le> toFixed2 x"
proof -
  assume x: "0 \<le> x"
  show ?thesis
  proof (cases "x < 10 ^ 21")
    case True
    have "0 \<le> \<lfloor>x * 100 + 1 / 2\<rfloor>" using x by simp
    then have "0 \<le> real_of_int \<lfloor>x * 100 + 1 / 2\<rfloor> / 100" by simp
    then show ?thesis by (simp only: toFixed2_small [OF x True])
  next
    case False
    then show ?thesis using x by (simp add: toFixed2_big)
  qed
qed

lemma toFixed2_small_le:
  assumes "0 \<le> x" and "x < 10 ^ 21"
  shows "toFixed2 x \<le> 10 ^ 21"
proof -
  have "x * 100 + 1 / 2 < real_of_int (10 ^ 23) + 1" using assms(2) by simp
  then have "\<lfloor>x * 100 + 1 / 2\<rfloor> \<le> 10 ^ 23" by (simp only: floor_le_iff)
  then have "real_of_int \<lfloor>x * 100 + 1 / 2\<rfloor> \<le> real_of_int (10 ^ 23)" by (simp only: of_int_le_iff)
  then have "real_of_int \<lfloor>x * 100 + 1 / 2\<rfloor> / 100 \<le> 10 ^ 21" by simp
  then show ?thesis by (simp only: toFixed2_small [OF assms])
qed

lemma toFixed2_mono:
  assumes "0 \<le> x" and "x \<le> y"
  shows "toFixed2 x \<le> toFixed2 y"
proof -
  have y: "0 \<le> y" using assms by simp
  consider "y < 10 ^ 21" | "x < 10 ^ 21" "10 ^ 21 \<le> y" | "10 ^ 21 \<le> x" by linarith
  then show ?thesis
  proof cases
    case 1
    then have xs: "x < 10 ^ 21" using assms by simp
    have "\<lfloor>x * 100 + 1 / 2\<rfloor> \<le> \<lfloor>y * 100 + 1 / 2\<rfloor>"
      by (rule floor_mono) (use assms in simp)
    then show ?thesis
      using toFixed2_small [OF assms(1) xs] toFixed2_small [OF y 1]
      by (simp add: divide_right_mono)
  next
    case 2
    then show ?thesis using toFixed2_small_le [OF assms(1) 2(1)] toFixed2_big [OF 2(2)] by simp
  next
    case 3
    then have "10 ^ 21 \<le> y" using assms by simp
    then show ?thesis using 3 assms by (simp add: toFixed2_big)
  qed
qed

lemma toFixed2_fixed:
  assumes "x = real_of_int k / 100"
  shows "toFixed2 x = x"
proof (cases "10 ^ 21 \<le> \<bar>x\<bar>")
  case True
  then show ?thesis by (simp add: toFixed2_def)
next
  case False
  have a: "\<bar>x\<bar> * 100 = real_of_int \<bar>k\<bar>" using assms by simp
  have "\<lfloor>real_of_int \<bar>k\<bar> + 1 / 2\<rfloor> = \<bar>k\<bar>" by linarith
  then have "real_of_int \<lfloor>\<bar>x\<bar> * 100 + 1 / 2\<rfloor> / 100 = \<bar>x\<bar>"
    using a by simp
  then have "toFixed2 x = sgn x * \<bar>x\<bar>" using False by (simp add: toFixed2_def)
  then show ?thesis by (simp add: sgn_mult_abs)
qed

lemma toFixed2_error: "\<bar>toFixed2 x - x\<bar> \<le> 1 / 200"
proof (cases "10 ^ 21 \<le> \<bar>x\<bar>")
  case True
  then show ?thesis by (simp add: toFixed2_def)
next
  case False
  define n where "n = \<lfloor>\<bar>x\<bar> * 100 + 1 / 2\<rfloor>"
  have "real_of_int n \<le> \<bar>x\<bar> * 100 + 1 / 2" "\<bar>x\<bar> * 100 + 1 / 2 < real_of_int n + 1"
    unfolding n_def by linarith+
  then have b: "\<bar>real_of_int n / 100 - \<bar>x\<bar>\<bar> \<le> 1 / 200" by linarith
  have "toFixed2 x - x = sgn x * (real_of_int n / 100 - \<bar>x\<bar>)"
    using False by (simp add: toFixed2_def n_def right_diff_distrib sgn_mult_abs)
  then have "\<bar>toFixed2 x - x\<bar> = \<bar>sgn x\<bar> * \<bar>real_of_int n / 100 - \<bar>x\<bar>\<bar>"
    by (simp only: abs_mult)
  also have "\<dots> \<le> 1 * \<bar>real_of_int n / 100 - \<bar>x\<bar>\<bar>"
    by (rule mult_right_mono) (simp_all add: abs_sgn_eq)
  finally show ?thesis using b by simp
qed

section \<open>Normalization: proofs\<close>

lemma cap_Fin: "cap (Fin m) (Fin x) = Fin (min m (max 0 x))"
  by (simp add: cap_def Math_min_def Math_max_def min_def max_def)


lemma cap_PosInf: "0 \<le> m \<Longrightarrow> cap (Fin m) PosInf = Fin m"
  by (simp add: cap_def Math_min_def Math_max_def)

lemma cap_NegInf: "0 \<le> m \<Longrightarrow> cap (Fin m) NegInf = Fin 0"
  by (simp add: cap_def Math_min_def Math_max_def)

lemma cap_bounds:
  assumes "0 \<le> m" and "v \<noteq> NaN"
  shows "\<exists>c. cap (Fin m) v = Fin c \<and> 0 \<le> c \<and> c \<le> m"
proof (cases v)
  case NaN
  with assms(2) show ?thesis by simp
next
  case PosInf
  then show ?thesis using assms(1) by (simp add: cap_PosInf)
next
  case NegInf
  then show ?thesis using assms(1) by (simp add: cap_NegInf)
next
  case (Fin x)
  then show ?thesis using assms(1) by (simp add: cap_Fin)
qed

lemma clamped_rounded_in_range:
  assumes "0 \<le> m" and "parseFloat_toFixed2 (Fin m) = Fin m" and "v \<noteq> NaN"
  shows "in_range 0 m (JNum (parseFloat_toFixed2 (cap (Fin m) v)))"
proof -
  from cap_bounds [OF assms(1,3)] obtain c where c: "cap (Fin m) v = Fin c" "0 \<le> c" "c \<le> m"
    by blast
  have fixed: "toFixed2 m = m" using assms(2) by simp
  have "toFixed2 c \<le> toFixed2 m" by (rule toFixed2_mono [OF c(2,3)])
  then have "0 \<le> toFixed2 c \<and> toFixed2 c \<le> m"
    using toFixed2_nonneg [OF c(2)] by (simp only: fixed)
  then show ?thesis by (simp add: c(1))
qed

text \<open>
  C2 (amended). Let \<open>maxMarks\<close> be a finite number that is not negative and that the
  rounding to two decimals leaves unchanged (\<open>parseFloat(maxMarks.toFixed(2)) === maxMarks\<close>,
  as for \<open>100\<close>). Whatever value other than \<open>NaN\<close> the formula of either method gives
  before the clamp, an infinity included, the clamp and the rounding store a number in the
  closed interval from \<open>0\<close> to \<open>maxMarks\<close>; so the adjusted score of every student lies in
  that interval when, for each student, the raw score does not parse (the fallback \<open>0\<close>) or
  the value before the clamp is not \<open>NaN\<close>.
\<close>

theorem C2_adjusted_in_range:
  assumes "0 \<le> m" and "parseFloat_toFixed2 (Fin m) = Fin m"
  shows "(\<forall>v. v \<noteq> NaN \<longrightarrow> in_range 0 m (JNum (parseFloat_toFixed2 (cap (Fin m) v)))) \<and>
         (list_all (has_number rt st method sdScaling) students \<longrightarrow>
            list_all (\<lambda>obj. in_range 0 m (get_prop obj ''adjusted''))
              (normalizedData rt students st method sdScaling (Fin m)))"
proof -
  have a: "\<forall>v. v \<noteq> NaN \<longrightarrow> in_range 0 m (JNum (parseFloat_toFixed2 (cap (Fin m) v)))"
    using clamped_rounded_in_range [OF assms] by (intro allI impI)
  have b: "in_range 0 m (JNum (adjusted_of rt st method sdScaling (Fin m) s))"
    if "has_number rt st method sdScaling s" for s
  proof (cases "parseFloat rt (get_prop s ''raw'') = NaN")
    case True
    then show ?thesis using assms(1) by (simp add: adjusted_of_def)
  next
    case False
    with that have "formula st method sdScaling (parseFloat rt (get_prop s ''raw'')) \<noteq> NaN"
      by (simp add: has_number_def)
    from clamped_rounded_in_range [OF assms this] False show ?thesis
      by (simp add: adjusted_of_def)
  qed
  have c: "list_all (has_number rt st method sdScaling) students \<longrightarrow>
            list_all (\<lambda>obj. in_range 0 m (get_prop obj ''adjusted''))
              (normalizedData rt students st method sdScaling (Fin m))"
    using b by (simp add: normalizedData_def list_all_iff get_prop_def)
  show ?thesis by (rule conjI [OF a c])
qed

theorem C2_witness:
  "\<forall>rt. (0::real) \<le> 100 \<and> parseFloat_toFixed2 (Fin 100) = Fin 100 \<and>
     list_all (has_number rt (stats rt (initial_students @ [unparsed_student]) (Fin 100) (Fin 75))
                 ''robust'' (Fin (3 / 2)))
       (initial_students @ [unparsed_student]) \<and>
     list_all (\<lambda>obj. in_range 0 100 (get_prop obj ''adjusted''))
       (normalizedData rt (initial_students @ [unparsed_student])
          (stats rt (initial_students @ [unparsed_student]) (Fin 100) (Fin 75))
          ''robust'' (Fin (3 / 2)) (Fin 100)) \<and>
     adjusted_values
       (normalizedData rt (initial_students @ [unparsed_student])
          (stats rt (initial_students @ [unparsed_student]) (Fin 100) (Fin 75))
          ''robust'' (Fin (3 / 2)) (Fin 100))
       = [JNum (Fin (789 / 10)), JNum (Fin (639 / 10)), JNum (Fin 100),
          JNum (Fin (207 / 5)), JNum (Fin (432 / 5)), JNum (Fin 0)]"
proof
  fix rt
  let ?students = "initial_students @ [unparsed_student]"
  let ?st = "stats rt ?students (Fin 100) (Fin 75)"
  have m: "(0::real) \<le> 100" by simp
  have f: "parseFloat_toFixed2 (Fin 100) = Fin 100"
    using toFixed2_fixed [of 100 10000] by simp
  have p: "list_all (has_number rt ?st ''robust'' (Fin (3 / 2))) ?students"
    by (simp add: component_defs unparsed_student_def has_number_def)
  have v: "adjusted_values (normalizedData rt ?students ?st ''robust'' (Fin (3 / 2)) (Fin 100))
       = [JNum (Fin (789 / 10)), JNum (Fin (639 / 10)), JNum (Fin 100),
          JNum (Fin (207 / 5)), JNum (Fin (432 / 5)), JNum (Fin 0)]"
    by (simp add: component_defs adjusted_values_def unparsed_student_def)
  have r: "list_all (\<lambda>obj. in_range 0 100 (get_prop obj ''adjusted''))
       (normalizedData rt ?students ?st ''robust'' (Fin (3 / 2)) (Fin 100))"
    using C2_adjusted_in_range [OF m f, of rt ?st "''robust''" "Fin (3 / 2)" ?students] p
    by blast
  from m f p r v show "(0::real) \<le> 100 \<and> parseFloat_toFixed2 (Fin 100) = Fin 100 \<and>
     list_all (has_number rt ?st ''robust'' (Fin (3 / 2))) ?students \<and>
     list_all (\<lambda>obj. in_range 0 100 (get_prop obj ''adjusted''))
       (normalizedData rt ?students ?st ''robust'' (Fin (3 / 2)) (Fin 100)) \<and>
     adjusted_values (normalizedData rt ?students ?st ''robust'' (Fin (3 / 2)) (Fin 100))
       = [JNum (Fin (789 / 10)), JNum (Fin (639 / 10)), JNum (Fin 100),
          JNum (Fin (207 / 5)), JNum (Fin (432 / 5)), JNum (Fin 0)]"
    by blast
qed

theorem C2_counterexample:
  "\<forall>rt.
     adjusted_values
       (normalizedData rt initial_students (stats rt initial_students (Fin (- 5)) (Fin 75))
          ''robust'' (Fin 1) (Fin (- 5)))
       = [JNum (Fin (- 5)), JNum (Fin (- 5)), JNum (Fin (- 5)), JNum (Fin (- 5)), JNum (Fin (- 5))] \<and>
     \<not> in_range 0 (- 5) (JNum (Fin (- 5))) \<and>
     adjusted_values
       (normalizedData rt initial_students
          (stats rt initial_students (Fin (99996 / 1000)) (Fin 75))
          ''robust'' (Fin (3 / 2)) (Fin (99996 / 1000)))
       = [JNum (Fin (789 / 10)), JNum (Fin (639 / 10)), JNum (Fin 100),
          JNum (Fin (207 / 5)), JNum (Fin (432 / 5))] \<and>
     \<not> in_range 0 (99996 / 1000) (JNum (Fin 100)) \<and>
     adjusted_values
       (normalizedData rt initial_students (stats rt initial_students (Fin 100) NaN)
          ''robust'' (Fin 1) (Fin 100))
       = [JNum NaN, JNum NaN, JNum NaN, JNum NaN, JNum NaN] \<and>
     adjusted_values
       (normalizedData rt [infinite_student] (stats rt [infinite_student] (Fin 100) (Fin 75))
          ''robust'' (Fin 1) (Fin 100))
       = [JNum NaN] \<and>
     \<not> in_range 0 100 (JNum NaN)"
  by (simp add: component_defs adjusted_values_def infinite_student_def)

lemma normalizedData_nth:
  assumes "i < length students"
  shows "get_prop (normalizedData rt students st method sdScaling maxMarks ! i) ''adjusted''
           = JNum (adjusted_of rt st method sdScaling maxMarks (students ! i))"
  using assms by (simp add: normalizedData_def get_prop_def)

text \<open>
  C3 (amended). The value the NormalizationEngine stores under \<open>adjusted\<close> for a score that
  parses to a number is the clamped value rounded to two decimals,
  \<open>parseFloat(adjusted.toFixed(2))\<close>: the rounding is part of the stored data, not only of
  its display, and the stored value is within \<open>0.005\<close> of the clamped precise value.
\<close>

theorem C3_stored_value_is_rounded:
  assumes "i < length students"
      and "parseFloat rt (get_prop (students ! i) ''raw'') = Fin r"
  shows "get_prop (normalizedData rt students st method sdScaling maxMarks ! i) ''adjusted''
           = JNum (parseFloat_toFixed2 (cap maxMarks (formula st method sdScaling (Fin r)))) \<and>
         (cap maxMarks (formula st method sdScaling (Fin r)) = Fin c \<longrightarrow>
            get_prop (normalizedData rt students st method sdScaling maxMarks ! i) ''adjusted''
              = JNum (Fin (toFixed2 c)) \<and>
            \<bar>toFixed2 c - c\<bar> \<le> 1 / 200)"
  using assms toFixed2_error [of c]
  by (simp add: normalizedData_nth adjusted_of_def)

theorem C3_witness:
  "\<forall>rt. (0::nat) < length initial_students \<and>
     parseFloat rt (get_prop (initial_students ! 0) ''raw'') = Fin 65 \<and>
     cap (Fin 100) (formula (stats rt initial_students (Fin 100) (Fin 75)) ''robust'' (Fin 1) (Fin 65))
       = Fin (388 / 5) \<and>
     get_prop (normalizedData rt initial_students (stats rt initial_students (Fin 100) (Fin 75))
                 ''robust'' (Fin 1) (Fin 100) ! 0) ''adjusted''
       = JNum (Fin (toFixed2 (388 / 5))) \<and>
     \<bar>toFixed2 (388 / 5) - 388 / 5\<bar> \<le> (1::real) / 200"
proof
  fix rt
  let ?st = "stats rt initial_students (Fin 100) (Fin 75)"
  have l: "0 < length initial_students" by (simp add: initial_students_def)
  have r: "parseFloat rt (get_prop (initial_students ! 0) ''raw'') = Fin 65"
    by (simp add: component_defs)
  have c: "cap (Fin 100) (formula ?st ''robust'' (Fin 1) (Fin 65)) = Fin (388 / 5)"
    by (simp add: component_defs)
  show "(0::nat) < length initial_students \<and>
     parseFloat rt (get_prop (initial_students ! 0) ''raw'') = Fin 65 \<and>
     cap (Fin 100) (formula ?st ''robust'' (Fin 1) (Fin 65)) = Fin (388 / 5) \<and>
     get_prop (normalizedData rt initial_students ?st ''robust'' (Fin 1) (Fin 100) ! 0) ''adjusted''
       = JNum (Fin (toFixed2 (388 / 5))) \<and>
     \<bar>toFixed2 (388 / 5) - 388 / 5\<bar> \<le> (1::real) / 200"
    using l r c C3_stored_value_is_rounded [OF l r, of ?st "''robust''" "Fin 1" "Fin 100" "388 / 5"]
    by simp
qed

theorem C3_counterexample:
  "\<forall>rt.
     cap (Fin 100)
       (formula (stats rt initial_students (Fin 100) (Fin (75001 / 1000))) ''robust'' (Fin 1)
          (parseFloat rt (get_prop (initial_students ! 0) ''raw'')))
       = Fin (77601 / 1000) \<and>
     get_prop (normalizedData rt initial_students
                 (stats rt initial_students (Fin 100) (Fin (75001 / 1000)))
                 ''robust'' (Fin 1) (Fin 100) ! 0) ''adjusted''
       = JNum (Fin (776 / 10))"
  by (simp add: component_defs)

text \<open>
  C6 (amended). Under the ratio method, when \<open>rawMean\<close> is \<open>0\<close>, a raw score that parses
  to the finite number \<open>r\<close> is passed through unchanged, clamped and rounded: the adjusted
  score is \<open>min(maxMarks, max(0, r))\<close> rounded to two decimals, and it is
  \<open>min(maxMarks, max(0, r))\<close> itself when that value has at most two decimals.
\<close>

theorem C6_ratio_zero_mean:
  assumes "rawMean st = Fin 0" and "parseFloat rt (get_prop s ''raw'') = Fin r"
  shows "adjusted_of rt st ''ratio'' sdScaling maxMarks s
           = parseFloat_toFixed2 (Math_min maxMarks (Math_max (Fin 0) (Fin r))) \<and>
         adjusted_of rt st ''ratio'' sdScaling (Fin m) s = Fin (toFixed2 (min m (max 0 r))) \<and>
         (min m (max 0 r) = real_of_int k / 100 \<longrightarrow>
            adjusted_of rt st ''ratio'' sdScaling (Fin m) s = Fin (min m (max 0 r)))"
proof -
  have f: "formula st ''ratio'' sdScaling (Fin r) = Fin r"
    using assms(1) by (simp add: formula_def)
  have a: "adjusted_of rt st ''ratio'' sdScaling maxMarks s
             = parseFloat_toFixed2 (cap maxMarks (Fin r))" for maxMarks
    using assms(2) f by (simp add: adjusted_of_def)
  have b: "adjusted_of rt st ''ratio'' sdScaling (Fin m) s = Fin (toFixed2 (min m (max 0 r)))"
    by (simp add: a cap_Fin)
  show ?thesis
    using a [of maxMarks] b toFixed2_fixed [of "min m (max 0 r)" k]
    by (simp add: cap_def)
qed

theorem C6_witness:
  "\<forall>rt. rawMean (stats rt (opposite_students 3) (Fin 100) (Fin 75)) = Fin 0 \<and>
     parseFloat rt (get_prop (opposite_students 3 ! 0) ''raw'') = Fin 3 \<and>
     min 100 (max 0 3) = real_of_int 300 / 100 \<and>
     adjusted_of rt (stats rt (opposite_students 3) (Fin 100) (Fin 75)) ''ratio'' (Fin 1) (Fin 100)
       (opposite_students 3 ! 0) = Fin 3"
proof
  fix rt
  let ?st = "stats rt (opposite_students 3) (Fin 100) (Fin 75)"
  have z: "rawMean ?st = Fin 0" by (simp add: component_defs opposite_students_def)
  have r: "parseFloat rt (get_prop (opposite_students 3 ! 0) ''raw'') = Fin 3"
    by (simp add: component_defs opposite_students_def)
  have k: "min 100 (max 0 3) = real_of_int 300 / 100" by simp
  have "adjusted_of rt ?st ''ratio'' (Fin 1) (Fin 100) (opposite_students 3 ! 0)
          = Fin (min 100 (max 0 3))"
    using k C6_ratio_zero_mean [OF z r, of "Fin 1" "Fin 100" 100 300] by blast
  then show "rawMean ?st = Fin 0 \<and>
     parseFloat rt (get_prop (opposite_students 3 ! 0) ''raw'') = Fin 3 \<and>
     min 100 (max 0 3) = real_of_int 300 / 100 \<and>
     adjusted_of rt ?st ''ratio'' (Fin 1) (Fin 100) (opposite_students 3 ! 0) = Fin 3"
    using z r by simp
qed

theorem C6_counterexample:
  "\<forall>rt. rawMean (stats rt (opposite_students (126 / 1000)) (Fin 100) (Fin 75)) = Fin 0 \<and>
     parseFloat rt (get_prop (opposite_students (126 / 1000) ! 0) ''raw'') = Fin (126 / 1000) \<and>
     adjusted_of rt (stats rt (opposite_students (126 / 1000)) (Fin 100) (Fin 75)) ''ratio'' (Fin 1)
       (Fin 100) (opposite_students (126 / 1000) ! 0) = Fin (13 / 100) \<and>
     Fin (13 / 100) \<noteq> Fin (min 100 (max 0 (126 / 1000)))"
  by (simp add: component_defs opposite_students_def)






section \<open>Handlers: proofs\<close>

lemma numeric_id: "has_numeric_id s \<Longrightarrow> get_prop s ''id'' = JNum (Fin (id_value s))"
  by (auto simp: has_numeric_id_def id_value_def split: jsval.splits jsnum.splits)

lemma Math_max_Fin: "Math_max (Fin a) (Fin b) = Fin (max a b)"
  by (simp add: Math_max_def max_def)

lemma foldl_Math_max_Fin:
  "foldl Math_max (Fin a) (map Fin xs) = Fin (Max (insert a (set xs)))"
proof (induction xs arbitrary: a)
  case Nil
  then show ?case by simp
next
  case (Cons x xs)
  have "Max (insert (max a x) (set xs)) = Max (insert a (insert x (set xs)))"
    by (cases "set xs = {}") (simp_all add: max.assoc)
  then show ?case using Cons.IH [of "max a x"] by (simp add: Math_max_Fin)
qed

lemma Math_max_list_Fin:
  assumes "xs \<noteq> []"
  shows "Math_max_list (map Fin xs) = Fin (Max (set xs))"
proof -
  from assms obtain y ys where xs: "xs = y # ys" by (cases xs) auto
  have "Math_max NegInf (Fin y) = Fin y" by (simp add: Math_max_def)
  then show ?thesis using foldl_Math_max_Fin [of y ys] by (simp add: Math_max_list_def xs)
qed

lemma id_numbers:
  assumes "list_all has_numeric_id students"
  shows "map (\<lambda>s. ToNumber rt (get_prop s ''id'')) students = map Fin (map id_value students)"
  using assms by (induction students) (simp_all add: numeric_id)

lemma addStudent_id:
  "get_prop (last (addStudent rt students)) ''id''
     = JNum (if length students > 0
             then jadd (Math_max_list (map (\<lambda>s. ToNumber rt (get_prop s ''id'')) students)) (Fin 1)
             else Fin 1)"
  by (simp add: addStudent_def Let_def get_prop_def)

lemma addStudent_butlast: "butlast (addStudent rt students) = students"
  by (simp add: addStudent_def Let_def)

lemma addStudent_newId:
  assumes "list_all has_numeric_id students"
  shows "get_prop (last (addStudent rt students)) ''id''
           = JNum (Fin (if students = [] then 1 else Max (set (map id_value students)) + 1))"
proof (cases "students = []")
  case True
  then show ?thesis unfolding addStudent_id by simp
next
  case False
  then have ne: "map id_value students \<noteq> []" by simp
  have "jadd (Math_max_list (map Fin (map id_value students))) (Fin 1)
          = Fin (Max (set (map id_value students)) + 1)"
    unfolding Math_max_list_Fin [OF ne] by simp
  then show ?thesis
    unfolding addStudent_id id_numbers [OF assms] using False by (simp del: map_map)
qed

lemma removeStudent_numeric:
  "list_all has_numeric_id students \<Longrightarrow> list_all has_numeric_id (removeStudent students i)"
  by (simp add: removeStudent_def list_all_iff)

text \<open>
  C9 (amended). When a student is added to a list whose identifiers are finite numbers, the
  new record's identifier is the largest existing identifier plus one, or \<open>1\<close> for the
  empty list; the rows already present are kept, and the new identifier is above every
  identifier in the list at that moment. After the removal of an identifier, the next
  addition does not assign it as long as a remaining student has an identifier at least as
  large; it assigns the removed identifier again exactly when that is one more than the
  largest remaining identifier, or is \<open>1\<close> and no student remains.
\<close>

theorem C9_new_id:
  assumes "list_all has_numeric_id students"
  shows "get_prop (last (addStudent rt students)) ''id''
           = JNum (Fin (if students = [] then 1 else Max (set (map id_value students)) + 1)) \<and>
         butlast (addStudent rt students) = students \<and>
         list_all (\<lambda>s. id_value s < id_value (last (addStudent rt students))) students \<and>
         (\<forall>j. list_ex (\<lambda>s. j \<le> id_value s) (removeStudent students (JNum (Fin j))) \<longrightarrow>
              get_prop (last (addStudent rt (removeStudent students (JNum (Fin j))))) ''id''
                \<noteq> JNum (Fin j)) \<and>
         (\<forall>j. get_prop (last (addStudent rt (removeStudent students (JNum (Fin j))))) ''id''
                = JNum (Fin j) \<longleftrightarrow>
              (if removeStudent students (JNum (Fin j)) = [] then j = 1
               else Max (set (map id_value (removeStudent students (JNum (Fin j))))) + 1 = j))"
proof -
  have above: "list_all (\<lambda>s. id_value s < id_value (last (addStudent rt l))) l"
    if l: "list_all has_numeric_id l" for l
  proof -
    have "id_value s < id_value (last (addStudent rt l))" if s: "s \<in> set l" for s
    proof -
      from s have ne: "l \<noteq> []" by auto
      have "id_value s \<le> Max (set (map id_value l))" using s by simp
      then show ?thesis using addStudent_newId [OF l, of rt] ne by (simp add: id_value_def)
    qed
    then show ?thesis by (simp add: list_all_iff)
  qed
  have fresh: "get_prop (last (addStudent rt (removeStudent students (JNum (Fin j))))) ''id''
                 \<noteq> JNum (Fin j)"
    if ex: "list_ex (\<lambda>s. j \<le> id_value s) (removeStudent students (JNum (Fin j)))" for j
  proof -
    let ?l = "removeStudent students (JNum (Fin j))"
    have l: "list_all has_numeric_id ?l" by (rule removeStudent_numeric [OF assms])
    from ex obtain s where s: "s \<in> set ?l" "j \<le> id_value s" by (auto simp: list_ex_iff)
    from above [OF l] s have "j < id_value (last (addStudent rt ?l))" by (auto simp: list_all_iff)
    then show ?thesis by (auto simp: id_value_def)
  qed
  have c4: "\<forall>j. list_ex (\<lambda>s. j \<le> id_value s) (removeStudent students (JNum (Fin j))) \<longrightarrow>
              get_prop (last (addStudent rt (removeStudent students (JNum (Fin j))))) ''id''
                \<noteq> JNum (Fin j)"
    using fresh by (intro allI impI)
  have c5: "\<forall>j. get_prop (last (addStudent rt (removeStudent students (JNum (Fin j))))) ''id''
                = JNum (Fin j) \<longleftrightarrow>
              (if removeStudent students (JNum (Fin j)) = [] then j = 1
               else Max (set (map id_value (removeStudent students (JNum (Fin j))))) + 1 = j)"
  proof
    fix j
    let ?l = "removeStudent students (JNum (Fin j))"
    have l: "list_all has_numeric_id ?l" by (rule removeStudent_numeric [OF assms])
    show "get_prop (last (addStudent rt ?l)) ''id'' = JNum (Fin j) \<longleftrightarrow>
              (if ?l = [] then j = 1 else Max (set (map id_value ?l)) + 1 = j)"
      unfolding addStudent_newId [OF l] by (cases "?l = []") auto
  qed
  show ?thesis
    by (rule conjI [OF addStudent_newId [OF assms]
          conjI [OF addStudent_butlast conjI [OF above [OF assms] conjI [OF c4 c5]]]])
qed

theorem C9_witness:
  "\<forall>rt. list_all has_numeric_id initial_students \<and>
     get_prop (last (addStudent rt initial_students)) ''id'' = JNum (Fin 6) \<and>
     list_ex (\<lambda>s. 3 \<le> id_value s) (removeStudent initial_students (JNum (Fin 3))) \<and>
     get_prop (last (addStudent rt (removeStudent initial_students (JNum (Fin 3))))) ''id''
       \<noteq> JNum (Fin 3)"
proof
  fix rt
  have ex: "list_ex (\<lambda>s. 3 \<le> id_value s) (removeStudent initial_students (JNum (Fin 3)))"
    by (simp add: initial_students_def mk_student_def removeStudent_def get_prop_def id_value_def)
  have m: "(if initial_students = [] then 1 else Max (set (map id_value initial_students)) + 1) = 6"
    by (simp add: initial_students_def mk_student_def get_prop_def id_value_def)
  have n: "list_all has_numeric_id initial_students"
    by (simp add: initial_students_def mk_student_def has_numeric_id_def get_prop_def)
  have a: "get_prop (last (addStudent rt initial_students)) ''id'' = JNum (Fin 6)"
    using C9_new_id [OF n, of rt] m by simp
  have b: "get_prop (last (addStudent rt (removeStudent initial_students (JNum (Fin 3))))) ''id''
       \<noteq> JNum (Fin 3)"
    using C9_new_id [OF n, of rt] ex by blast
  from n a ex b
  show "list_all has_numeric_id initial_students \<and>
     get_prop (last (addStudent rt initial_students)) ''id'' = JNum (Fin 6) \<and>
     list_ex (\<lambda>s. 3 \<le> id_value s) (removeStudent initial_students (JNum (Fin 3))) \<and>
     get_prop (last (addStudent rt (removeStudent initial_students (JNum (Fin 3))))) ''id''
       \<noteq> JNum (Fin 3)"
    by blast
qed

theorem C9_counterexample:
  "\<forall>rt. ids initial_students
       = [JNum (Fin 1), JNum (Fin 2), JNum (Fin 3), JNum (Fin 4), JNum (Fin 5)] \<and>
     ids (removeStudent initial_students (JNum (Fin 5)))
       = [JNum (Fin 1), JNum (Fin 2), JNum (Fin 3), JNum (Fin 4)] \<and>
     get_prop (last (addStudent rt (removeStudent initial_students (JNum (Fin 5))))) ''id''
       = JNum (Fin 5)"
  by (simp add: initial_students_def mk_student_def removeStudent_def addStudent_def get_prop_def
      ids_def Math_max_list_def Math_max_def Let_def)

lemma strict_eq_eq: "strict_eq a b \<Longrightarrow> a = b"
  by (cases a; cases b) auto

text \<open>
  C10. For every student list, identifier, field name and value, \<open>updateStudent\<close> keeps the
  length and the order of the list, leaves every record whose identifier does not match as
  it is, and in a record whose identifier matches sets the named field to the value and
  keeps every other field. If no record matches, the list is returned unchanged, and when
  the identifiers of the list are distinct at most one record changes.
\<close>

theorem C10_updateStudent_frame:
  "length (updateStudent students i field v) = length students \<and>
   (\<forall>k < length students.
      (\<not> strict_eq (get_prop (students ! k) ''id'') i \<longrightarrow>
         updateStudent students i field v ! k = students ! k) \<and>
      (strict_eq (get_prop (students ! k) ''id'') i \<longrightarrow>
         (updateStudent students i field v ! k) field = Some v \<and>
         (\<forall>g. g \<noteq> field \<longrightarrow> (updateStudent students i field v ! k) g = (students ! k) g))) \<and>
   (list_all (\<lambda>s. \<not> strict_eq (get_prop s ''id'') i) students \<longrightarrow>
      updateStudent students i field v = students) \<and>
   (distinct (ids students) \<longrightarrow>
      (\<forall>j k. j < length students \<and> k < length students \<and>
             updateStudent students i field v ! j \<noteq> students ! j \<and>
             updateStudent students i field v ! k \<noteq> students ! k \<longrightarrow> j = k))"
proof -
  have len: "length (updateStudent students i field v) = length students"
    by (simp add: updateStudent_def)
  have nth: "updateStudent students i field v ! k =
      (if strict_eq (get_prop (students ! k) ''id'') i then (students ! k)(field \<mapsto> v)
       else students ! k)" if "k < length students" for k
    using that by (simp add: updateStudent_def)
  have none: "updateStudent students i field v = students"
    if "list_all (\<lambda>s. \<not> strict_eq (get_prop s ''id'') i) students"
    using that by (simp add: updateStudent_def list_all_iff map_idI)
  have one: "j = k"
    if d: "distinct (ids students)" and j: "j < length students" and k: "k < length students"
      and cj: "updateStudent students i field v ! j \<noteq> students ! j"
      and ck: "updateStudent students i field v ! k \<noteq> students ! k" for j k
  proof -
    have "strict_eq (get_prop (students ! j) ''id'') i" using cj nth [OF j] by (simp split: if_splits)
    then have ej: "get_prop (students ! j) ''id'' = i" by (rule strict_eq_eq)
    have "strict_eq (get_prop (students ! k) ''id'') i" using ck nth [OF k] by (simp split: if_splits)
    then have ek: "get_prop (students ! k) ''id'' = i" by (rule strict_eq_eq)
    have lj: "j < length (ids students)" and lk: "k < length (ids students)"
      using j k by (simp_all add: ids_def)
    have "ids students ! j = ids students ! k" using ej ek j k by (simp add: ids_def)
    then show ?thesis by (simp only: nth_eq_iff_index_eq [OF d lj lk])
  qed
  have c2: "\<forall>k < length students.
      (\<not> strict_eq (get_prop (students ! k) ''id'') i \<longrightarrow>
         updateStudent students i field v ! k = students ! k) \<and>
      (strict_eq (get_prop (students ! k) ''id'') i \<longrightarrow>
         (updateStudent students i field v ! k) field = Some v \<and>
         (\<forall>g. g \<noteq> field \<longrightarrow> (updateStudent students i field v ! k) g = (students ! k) g))"
    by (intro allI impI) (simp add: nth)
  have c3: "list_all (\<lambda>s. \<not> strict_eq (get_prop s ''id'') i) students \<longrightarrow>
      updateStudent students i field v = students"
    using none by (intro impI)
  have c4: "distinct (ids students) \<longrightarrow>
      (\<forall>j k. j < length students \<and> k < length students \<and>
             updateStudent students i field v ! j \<noteq> students ! j \<and>
             updateStudent students i field v ! k \<noteq> students ! k \<longrightarrow> j = k)"
  proof (intro impI allI)
    fix j k
    assume "distinct (ids students)"
      and "j < length students \<and> k < length students \<and>
             updateStudent students i field v ! j \<noteq> students ! j \<and>
             updateStudent students i field v ! k \<noteq> students ! k"
    then show "j = k" using one [of j k] by (elim conjE)
  qed
  show ?thesis
    by (rule conjI [OF len conjI [OF c2 conjI [OF c3 c4]]])
qed

theorem C10_witness:
  "distinct (ids initial_students) \<and>
   updateStudent initial_students (JNum (Fin 2)) ''raw'' (JStr ''58'')
     = [mk_student 1 ''Student A'' 65,
        (mk_student 2 ''Student B'' 55)(''raw'' \<mapsto> JStr ''58''),
        mk_student 3 ''Student C'' 82,
        mk_student 4 ''Student D'' 40,
        mk_student 5 ''Student E'' 70] \<and>
   list_all (\<lambda>s. \<not> strict_eq (get_prop s ''id'') (JNum (Fin 9))) initial_students \<and>
   updateStudent initial_students (JNum (Fin 9)) ''raw'' (JStr ''58'') = initial_students"
proof -
  have d: "distinct (ids initial_students)"
    by (simp add: initial_students_def mk_student_def ids_def get_prop_def)
  have n: "list_all (\<lambda>s. \<not> strict_eq (get_prop s ''id'') (JNum (Fin 9))) initial_students"
    by (simp add: initial_students_def mk_student_def get_prop_def)
  have u: "updateStudent initial_students (JNum (Fin 2)) ''raw'' (JStr ''58'')
     = [mk_student 1 ''Student A'' 65,
        (mk_student 2 ''Student B'' 55)(''raw'' \<mapsto> JStr ''58''),
        mk_student 3 ''Student C'' 82,
        mk_student 4 ''Student D'' 40,
        mk_student 5 ''Student E'' 70]"
    by (simp add: initial_students_def mk_student_def updateStudent_def get_prop_def)
  have "updateStudent initial_students (JNum (Fin 9)) ''raw'' (JStr ''58'') = initial_students"
    using C10_updateStudent_frame [of initial_students "JNum (Fin 9)" "''raw''" "JStr ''58''"] n
    by blast
  with d n u show ?thesis by blast
qed

end
